theory Spec2Isabelle
  imports Complex_Main "HOL-Library.Multiset"
begin

section \<open>Data model\<close>

text \<open>
  The retrieval core of medquery-ai: the mock vector generators
  (\<^verbatim>\<open>mock_embeddings.py\<close>, \<^verbatim>\<open>enhanced_embeddings.py\<close>), the on-disk vector store
  they write, the single-document retrievers (\<^verbatim>\<open>mock_embeddings.py\<close>,
  \<^verbatim>\<open>simple_retriever.py\<close>, \<^verbatim>\<open>multi_doc_retriever.py\<close>), the multi-document merge and
  the chunker's constructor (\<^verbatim>\<open>text_chunker.py\<close>).

  Numbers: numpy's float64 values are idealised to \<^typ>\<open>real\<close>. Rounding is not
  modelled, and neither is \<^verbatim>\<open>nan\<close>: numpy divides by a zero norm with a warning and
  yields \<^verbatim>\<open>nan\<close>, where HOL's \<open>x / 0\<close> is \<open>0\<close>. The vectors the generators below
  produce have norm one, so that case is outside what the store holds.
\<close>

type_synonym vector = "real list"

type_synonym attrs = "(string \<times> string) list"

text \<open>Every exception the modelled code can raise, as a value.\<close>

datatype error =
    NoEmbeddingsFound string  \<comment> \<open>\<^verbatim>\<open>ValueError(f"No embeddings found for document {doc_id}")\<close>\<close>
  | FileNotFound string       \<comment> \<open>\<^verbatim>\<open>open(path, 'r')\<close> on a path that does not exist\<close>
  | ShapesNotAligned          \<comment> \<open>\<^verbatim>\<open>np.dot\<close> on lists of different lengths: \<^verbatim>\<open>ValueError\<close>\<close>
  | AttributeError            \<comment> \<open>a method called on \<^verbatim>\<open>None\<close>\<close>
  | MissingApiKey             \<comment> \<open>\<^verbatim>\<open>ValueError("OpenAI API key not found. ...")\<close>\<close>
  | ProviderError string      \<comment> \<open>whatever an external embedding provider raises\<close>
  | SplitterValueError string \<comment> \<open>whatever the text-splitter library's constructor raises\<close>

text \<open>A langchain \<^verbatim>\<open>Document\<close>: the chunker's output and \<^verbatim>\<open>embed_chunks\<close>' input.\<close>

record document =
  page_content :: string
  metadata :: attrs

text \<open>One entry of \<^verbatim>\<open>metadata["chunks"]\<close> in \<^verbatim>\<open>{doc_id}_metadata.json\<close>.\<close>

record chunk_entry =
  chunk_id :: nat
  content :: string
  entry_metadata :: attrs

text \<open>
  The JSON object written to \<^verbatim>\<open>{doc_id}_metadata.json\<close>. \<open>embedding_provider\<close> is
  \<open>None\<close> where the key is absent (the mock manager does not write it). The
  \<^verbatim>\<open>token_count\<close> and \<^verbatim>\<open>estimated_cost\<close> keys of the OpenAI branch are cost
  bookkeeping and are left out.
\<close>

record doc_metadata =
  doc_id :: string
  chunk_count :: nat
  embedding_model :: string
  embedding_provider :: "string option"
  chunks :: "chunk_entry list"
  processing_time :: real

text \<open>
  The directory \<^verbatim>\<open>embeddings_dir\<close>: for each document id, the pickled list of vectors
  \<^verbatim>\<open>{doc_id}_embeddings.pkl\<close> and the JSON file \<^verbatim>\<open>{doc_id}_metadata.json\<close>. They are
  two files, written and read one after the other, so either can exist without the
  other.
\<close>

record store =
  embeddings_pkl :: "string \<rightharpoonup> vector list"
  metadata_json :: "string \<rightharpoonup> doc_metadata"

text \<open>
  One retrieval result (a Python dict). \<open>r_doc_id\<close> is \<open>None\<close> where the dict has no
  \<^verbatim>\<open>"doc_id"\<close> key (\<^verbatim>\<open>MockRetriever\<close>, \<^verbatim>\<open>SimpleRetriever\<close>).
\<close>

record result =
  r_chunk_id :: nat
  r_content :: string
  score :: real
  r_metadata :: attrs
  r_doc_id :: "string option"

section \<open>The libraries and the process\<close>

text \<open>
  What the code takes from outside the repository, as parameters:
  \<^item> \<open>md5_int text\<close> is \<^verbatim>\<open>int(md5(text.encode()).hexdigest(), 16)\<close>;
  \<^item> \<open>str_hash secret text\<close> is Python's built-in \<^verbatim>\<open>hash(text)\<close>, which for strings is
    keyed by a secret the interpreter draws at start-up (hash randomisation, on by
    default);
  \<^item> \<open>seed_state s\<close> is the state \<^verbatim>\<open>np.random.seed(s)\<close> installs in numpy's global
    generator;
  \<^item> \<open>randn dim g\<close> is \<^verbatim>\<open>np.random.randn(dim)\<close> run from generator state \<open>g\<close>: the
    samples and the state after them;
  \<^item> \<open>provider_embed_documents\<close> and \<open>provider_embed_query\<close> are the two methods of
    an external embedding client (\<^verbatim>\<open>OpenAIEmbeddings\<close>, \<^verbatim>\<open>HuggingFaceEmbeddings\<close>);
  \<^item> \<open>np_argsort xs\<close> is \<^verbatim>\<open>np.argsort(xs)\<close> with its default \<^verbatim>\<open>kind='quicksort'\<close>:
    positions that sort \<open>xs\<close>. The default sort is not stable, so numpy fixes no order
    among positions of equal value, and neither does the model: what it may be assumed
    to satisfy is \<open>argsort_contract\<close> below, and nothing more.
\<close>

record 'g python_lib =
  md5_int :: "string \<Rightarrow> nat"
  str_hash :: "nat \<Rightarrow> string \<Rightarrow> int"
  seed_state :: "nat \<Rightarrow> 'g"
  randn :: "nat \<Rightarrow> 'g \<Rightarrow> vector \<times> 'g"
  provider_embed_documents :: "string list \<Rightarrow> error + vector list"
  provider_embed_query :: "string \<Rightarrow> error + vector"
  np_argsort :: "real list \<Rightarrow> nat list"

text \<open>
  What \<^verbatim>\<open>np.argsort\<close> promises of its result \<open>idxs\<close> for the values \<open>xs\<close>: it holds every
  position of \<open>xs\<close> once, and the values read in that order ascend.
\<close>

definition is_argsort :: "real list \<Rightarrow> nat list \<Rightarrow> bool" where
  "is_argsort xs idxs =
     (mset idxs = mset [0..<length xs] \<and> sorted (map (\<lambda>i. xs ! i) idxs))"

definition argsort_contract :: "(real list \<Rightarrow> nat list) \<Rightarrow> bool" where
  "argsort_contract argsort_fn = (\<forall>xs. is_argsort xs (argsort_fn xs))"

text \<open>
  The part of the interpreter's state the generators touch: the string-hash secret,
  fixed for the life of one process and drawn afresh by the next, and the state of
  numpy's global generator.
\<close>

record 'g process =
  hash_secret :: nat
  np_random :: "'g"

definition np_random_seed :: "'g python_lib \<Rightarrow> nat \<Rightarrow> 'g process \<Rightarrow> 'g process" where
  "np_random_seed L s p = p\<lparr>np_random := seed_state L s\<rparr>"

definition np_random_randn :: "'g python_lib \<Rightarrow> nat \<Rightarrow> 'g process \<Rightarrow> vector \<times> 'g process" where
  "np_random_randn L dimension p =
     (case randn L dimension (np_random p) of (v, g) \<Rightarrow> (v, p\<lparr>np_random := g\<rparr>))"

section \<open>Vectors\<close>

definition dot :: "vector \<Rightarrow> vector \<Rightarrow> real" where
  "dot a b = sum_list (map2 (*) a b)"

definition linalg_norm :: "vector \<Rightarrow> real" where
  "linalg_norm a = sqrt (sum_list (map (\<lambda>x. x * x) a))"

text \<open>\<^verbatim>\<open>embedding / c\<close> on a numpy array: every component divided by \<open>c\<close>.\<close>

definition divide_by :: "vector \<Rightarrow> real \<Rightarrow> vector" where
  "divide_by v c = map (\<lambda>x. x / c) v"

section \<open>The mock vector generators\<close>

text \<open>
  \<^verbatim>\<open>MockEmbeddingsManager._generate_mock_embedding\<close> and the identical
  \<^verbatim>\<open>MockRetriever._generate_mock_embedding\<close>: the seed comes from MD5.
\<close>

definition generate_mock_embedding ::
  "'g python_lib \<Rightarrow> string \<Rightarrow> nat \<Rightarrow> 'g process \<Rightarrow> vector \<times> 'g process" where
  "generate_mock_embedding L text dimension p =
     (let seed = md5_int L text mod 10000000;
          p1 = np_random_seed L seed p
      in case np_random_randn L dimension p1 of
           (embedding, p2) \<Rightarrow> (divide_by embedding (linalg_norm embedding), p2))"

text \<open>
  \<^verbatim>\<open>EnhancedEmbeddingsManager\<close>: the constructor fixes model name and dimension from
  the provider string; any string other than \<^verbatim>\<open>"openai"\<close> and \<^verbatim>\<open>"huggingface"\<close> takes
  the mock branch. \<open>has_client\<close> records whether \<^verbatim>\<open>self.embeddings\<close> is a client or
  \<^verbatim>\<open>None\<close>. The cost counters are left out.
\<close>

record manager =
  provider :: string
  has_client :: bool
  model_name :: string
  embedding_dim :: nat

definition EnhancedEmbeddingsManager_init :: "bool \<Rightarrow> string \<Rightarrow> error + manager" where
  "EnhancedEmbeddingsManager_init api_key_set prov =
     (if prov = ''openai'' then
        (if \<not> api_key_set then Inl MissingApiKey
         else Inr \<lparr>provider = prov, has_client = True,
                    model_name = ''text-embedding-3-small'', embedding_dim = 1536\<rparr>)
      else if prov = ''huggingface'' then
        Inr \<lparr>provider = prov, has_client = True,
              model_name = ''all-MiniLM-L6-v2'', embedding_dim = 384\<rparr>
      else
        Inr \<lparr>provider = prov, has_client = False,
              model_name = ''mock_embeddings'', embedding_dim = 384\<rparr>)"

text \<open>
  \<^verbatim>\<open>EnhancedEmbeddingsManager._generate_mock_embedding\<close>: the seed comes from the
  built-in \<^verbatim>\<open>hash\<close>, so from the process's hash secret. Python's \<^verbatim>\<open>%\<close> with a positive
  modulus is never negative, as \<open>mod\<close> on \<^typ>\<open>int\<close>.
\<close>

definition enhanced_generate_mock_embedding ::
  "'g python_lib \<Rightarrow> manager \<Rightarrow> string \<Rightarrow> 'g process \<Rightarrow> vector \<times> 'g process" where
  "enhanced_generate_mock_embedding L m text p =
     (let seed = nat (str_hash L (hash_secret p) text mod 10000000);
          p1 = np_random_seed L seed p
      in case np_random_randn L (embedding_dim m) p1 of
           (embedding, p2) \<Rightarrow> (divide_by embedding (linalg_norm embedding), p2))"

text \<open>
  \<^verbatim>\<open>EnhancedEmbeddingsManager.embed_documents\<close> and \<^verbatim>\<open>embed_query\<close>: only the exact
  string \<^verbatim>\<open>"mock"\<close> takes the mock generator; otherwise the call goes to
  \<^verbatim>\<open>self.embeddings\<close>, which is \<^verbatim>\<open>None\<close> for a manager built from an unknown provider
  string. The list comprehension runs the generator once per text, in order.
\<close>

fun embed_each ::
  "(string \<Rightarrow> 'g process \<Rightarrow> vector \<times> 'g process) \<Rightarrow> string list \<Rightarrow> 'g process
     \<Rightarrow> vector list \<times> 'g process" where
  "embed_each gen [] p = ([], p)"
| "embed_each gen (t # ts) p =
     (case gen t p of (e, p1) \<Rightarrow>
        (case embed_each gen ts p1 of (es, p2) \<Rightarrow> (e # es, p2)))"

definition embed_documents ::
  "'g python_lib \<Rightarrow> manager \<Rightarrow> string list \<Rightarrow> 'g process
     \<Rightarrow> error + (vector list \<times> 'g process)" where
  "embed_documents L m texts p =
     (if provider m = ''mock'' then
        Inr (embed_each (enhanced_generate_mock_embedding L m) texts p)
      else if \<not> has_client m then Inl AttributeError
      else (case provider_embed_documents L texts of
              Inl e \<Rightarrow> Inl e
            | Inr vs \<Rightarrow> Inr (vs, p)))"

definition embed_query ::
  "'g python_lib \<Rightarrow> manager \<Rightarrow> string \<Rightarrow> 'g process \<Rightarrow> error + (vector \<times> 'g process)" where
  "embed_query L m text p =
     (if provider m = ''mock'' then Inr (enhanced_generate_mock_embedding L m text p)
      else if \<not> has_client m then Inl AttributeError
      else (case provider_embed_query L text of
              Inl e \<Rightarrow> Inl e
            | Inr v \<Rightarrow> Inr (v, p)))"

section \<open>Writing the store: \<^verbatim>\<open>embed_chunks\<close>\<close>

text \<open>
  The \<^verbatim>\<open>"chunks"\<close> list of the metadata file:
  \<^verbatim>\<open>[{"chunk_id": i, "content": chunk.page_content, "metadata": chunk.metadata}
      for i, chunk in enumerate(chunks)]\<close>.
\<close>

definition chunk_entries :: "document list \<Rightarrow> chunk_entry list" where
  "chunk_entries chunk_list =
     map (\<lambda>(i, chunk). \<lparr>chunk_id = i, content = page_content chunk,
                          entry_metadata = metadata chunk\<rparr>)
       (enumerate 0 chunk_list)"

text \<open>
  \<^verbatim>\<open>MockEmbeddingsManager.embed_chunks\<close>. The vectors are generated first (384 is the
  default \<^verbatim>\<open>dim\<close>), then the pickle is written, then the metadata file; \<open>elapsed\<close> is
  the clock difference \<^verbatim>\<open>time.time() - start_time\<close>. The returned dict of paths and
  statistics is not modelled: the result is the store and the process after the call.
\<close>

definition embed_chunks ::
  "'g python_lib \<Rightarrow> document list \<Rightarrow> string \<Rightarrow> real \<Rightarrow> store \<Rightarrow> 'g process
     \<Rightarrow> store \<times> 'g process" where
  "embed_chunks L chunk_list doc elapsed st p =
     (let texts = map page_content chunk_list in
      case embed_each (\<lambda>text. generate_mock_embedding L text 384) texts p of
        (embeddings, p') \<Rightarrow>
          (let st1 = st\<lparr>embeddings_pkl := (embeddings_pkl st)(doc \<mapsto> embeddings)\<rparr>;
               md = \<lparr>doc_id = doc, chunk_count = length chunk_list,
                     embedding_model = ''mock_embeddings'', embedding_provider = None,
                     chunks = chunk_entries chunk_list, processing_time = elapsed\<rparr>;
               st2 = st1\<lparr>metadata_json := (metadata_json st1)(doc \<mapsto> md)\<rparr>
           in (st2, p')))"

text \<open>
  \<^verbatim>\<open>EnhancedEmbeddingsManager.embed_chunks\<close>. A failure of \<^verbatim>\<open>embed_documents\<close>
  leaves the call before either file is written. The token count of the OpenAI branch
  feeds the cost counters and two extra metadata keys only, and is left out with them.
\<close>

definition enhanced_embed_chunks ::
  "'g python_lib \<Rightarrow> manager \<Rightarrow> document list \<Rightarrow> string \<Rightarrow> real \<Rightarrow> store \<Rightarrow> 'g process
     \<Rightarrow> error + (store \<times> 'g process)" where
  "enhanced_embed_chunks L m chunk_list doc elapsed st p =
     (let texts = map page_content chunk_list in
      case embed_documents L m texts p of
        Inl e \<Rightarrow> Inl e
      | Inr (embeddings, p') \<Rightarrow>
          (let st1 = st\<lparr>embeddings_pkl := (embeddings_pkl st)(doc \<mapsto> embeddings)\<rparr>;
               md = \<lparr>doc_id = doc, chunk_count = length chunk_list,
                     embedding_model = model_name m,
                     embedding_provider = Some (provider m),
                     chunks = chunk_entries chunk_list, processing_time = elapsed\<rparr>;
               st2 = st1\<lparr>metadata_json := (metadata_json st1)(doc \<mapsto> md)\<rparr>
           in Inr (st2, p')))"

text \<open>
  The alignment of a document's two files with the chunk list they were written from:
  as many vectors as chunks, as many metadata entries, the recorded count, and entry
  \<open>i\<close> carrying id \<open>i\<close> and the text of chunk \<open>i\<close>.
\<close>

definition aligned_with :: "store \<Rightarrow> string \<Rightarrow> document list \<Rightarrow> bool" where
  "aligned_with st doc chunk_list =
     (case (embeddings_pkl st doc, metadata_json st doc) of
        (Some embeddings, Some md) \<Rightarrow>
          length embeddings = length chunk_list \<and>
          length (chunks md) = length chunk_list \<and>
          chunk_count md = length chunk_list \<and>
          (\<forall>i < length chunk_list.
             chunk_id (chunks md ! i) = i \<and>
             content (chunks md ! i) = page_content (chunk_list ! i))
      | _ \<Rightarrow> False)"

section \<open>Single-document retrieval\<close>

text \<open>
  \<^verbatim>\<open>np.dot(a, b) / (np.linalg.norm(a) * np.linalg.norm(b))\<close>. \<^verbatim>\<open>np.dot\<close> raises on
  lists of different lengths.
\<close>

definition cosine_similarity :: "vector \<Rightarrow> vector \<Rightarrow> error + real" where
  "cosine_similarity a b =
     (if length a \<noteq> length b then Inl ShapesNotAligned
      else Inr (dot a b / (linalg_norm a * linalg_norm b)))"

text \<open>
  \<^verbatim>\<open>[self.cosine_similarity(query_embedding, chunk_emb) for chunk_emb in chunk_embeddings]\<close>:
  the first failure ends the comprehension.
\<close>

fun similarities :: "vector \<Rightarrow> vector list \<Rightarrow> error + real list" where
  "similarities q [] = Inr []"
| "similarities q (chunk_emb # rest) =
     (case cosine_similarity q chunk_emb of
        Inl e \<Rightarrow> Inl e
      | Inr s \<Rightarrow> (case similarities q rest of
                    Inl e \<Rightarrow> Inl e
                  | Inr ss \<Rightarrow> Inr (s # ss)))"

text \<open>
  Python's slices \<^verbatim>\<open>xs[start:]\<close> and \<^verbatim>\<open>xs[:stop]\<close> for an integer bound of either sign:
  a negative bound counts from the end, and every bound is clipped to the list.
\<close>

definition slice_from :: "int \<Rightarrow> 'a list \<Rightarrow> 'a list" where
  "slice_from start xs =
     (let n = int (length xs);
          s = (if start < 0 then max 0 (n + start) else min start n)
      in drop (nat s) xs)"

definition slice_to :: "int \<Rightarrow> 'a list \<Rightarrow> 'a list" where
  "slice_to stop xs =
     (let n = int (length xs);
          e = (if stop < 0 then max 0 (n + stop) else min stop n)
      in take (nat e) xs)"

text \<open>
  \<^verbatim>\<open>np.argsort(similarities)[-top_k:][::-1]\<close>, with \<open>argsort_fn\<close> for \<^verbatim>\<open>np.argsort\<close>.
\<close>

definition top_indices :: "(real list \<Rightarrow> nat list) \<Rightarrow> real list \<Rightarrow> int \<Rightarrow> nat list" where
  "top_indices argsort_fn sims top_k = rev (slice_from (- top_k) (argsort_fn sims))"

text \<open>
  The dict appended for position \<open>idx\<close>; \<open>tag\<close> is the \<^verbatim>\<open>"doc_id"\<close> entry, which only
  \<^verbatim>\<open>MultiDocRetriever\<close> adds. The loop reads the metadata only under its guard, and
  the similarity at a position that \<^verbatim>\<open>np.argsort\<close> returned.
\<close>

definition make_result :: "string option \<Rightarrow> chunk_entry list \<Rightarrow> real list \<Rightarrow> nat \<Rightarrow> result" where
  "make_result tag entries sims idx =
     (let chunk = entries ! idx
      in \<lparr>r_chunk_id = chunk_id chunk, r_content = content chunk, score = sims ! idx,
           r_metadata = entry_metadata chunk, r_doc_id = tag\<rparr>)"

text \<open>
  The loop \<^verbatim>\<open>for idx in top_indices: if idx < len(metadata["chunks"]): results.append(...)\<close>.
\<close>

fun collect_results ::
  "string option \<Rightarrow> chunk_entry list \<Rightarrow> real list \<Rightarrow> nat list \<Rightarrow> result list" where
  "collect_results tag entries sims [] = []"
| "collect_results tag entries sims (idx # rest) =
     (if idx < length entries
      then make_result tag entries sims idx # collect_results tag entries sims rest
      else collect_results tag entries sims rest)"

text \<open>
  The body shared, line for line, by \<^verbatim>\<open>MockRetriever.retrieve\<close>,
  \<^verbatim>\<open>SimpleRetriever.retrieve\<close> and \<^verbatim>\<open>MultiDocRetriever.retrieve_from_single_doc\<close>.
  They differ in how the query is embedded (\<open>embed_fn\<close>) and in the \<^verbatim>\<open>"doc_id"\<close> entry
  of a result (\<open>tag\<close>); \<open>argsort_fn\<close> is \<^verbatim>\<open>np.argsort\<close>.
\<close>

definition retrieve_with ::
  "(real list \<Rightarrow> nat list) \<Rightarrow> (string \<Rightarrow> error + vector) \<Rightarrow> string option \<Rightarrow> store
     \<Rightarrow> string \<Rightarrow> string \<Rightarrow> int \<Rightarrow> error + result list" where
  "retrieve_with argsort_fn embed_fn tag st query doc top_k =
     (case embeddings_pkl st doc of
        None \<Rightarrow> Inl (NoEmbeddingsFound doc)
      | Some chunk_embeddings \<Rightarrow>
          (case metadata_json st doc of
             None \<Rightarrow> Inl (FileNotFound (doc @ ''_metadata.json''))
           | Some md \<Rightarrow>
               (case embed_fn query of
                  Inl e \<Rightarrow> Inl e
                | Inr query_embedding \<Rightarrow>
                    (case similarities query_embedding chunk_embeddings of
                       Inl e \<Rightarrow> Inl e
                     | Inr sims \<Rightarrow>
                         Inr (collect_results tag (chunks md) sims
                                (top_indices argsort_fn sims top_k))))))"

text \<open>
  The three retrievers. The mock generator reseeds numpy's generator on every call, and
  the process after a retrieval is not returned: no later result depends on it.
\<close>

definition MockRetriever_retrieve ::
  "'g python_lib \<Rightarrow> 'g process \<Rightarrow> store \<Rightarrow> string \<Rightarrow> string \<Rightarrow> int \<Rightarrow> error + result list" where
  "MockRetriever_retrieve L p st query doc top_k =
     retrieve_with (np_argsort L)
       (\<lambda>text. Inr (fst (generate_mock_embedding L text 384 p))) None
       st query doc top_k"

definition SimpleRetriever_retrieve ::
  "'g python_lib \<Rightarrow> store \<Rightarrow> string \<Rightarrow> string \<Rightarrow> int \<Rightarrow> error + result list" where
  "SimpleRetriever_retrieve L st query doc top_k =
     retrieve_with (np_argsort L) (provider_embed_query L) None st query doc top_k"

definition retrieve_from_single_doc ::
  "'g python_lib \<Rightarrow> manager \<Rightarrow> 'g process \<Rightarrow> store \<Rightarrow> string \<Rightarrow> string \<Rightarrow> int
     \<Rightarrow> error + result list" where
  "retrieve_from_single_doc L m p st query doc top_k =
     retrieve_with (np_argsort L)
       (\<lambda>text. map_sum id fst (embed_query L m text p)) (Some doc)
       st query doc top_k"

section \<open>Multi-document retrieval\<close>

text \<open>
  The loop of \<^verbatim>\<open>retrieve_from_multiple_docs\<close>: \<^verbatim>\<open>try: all_results.extend(...)\<close>,
  \<^verbatim>\<open>except Exception\<close>: print and go on. The printed line is not modelled.
\<close>

fun gather_results ::
  "(string \<Rightarrow> error + result list) \<Rightarrow> string list \<Rightarrow> result list \<Rightarrow> result list" where
  "gather_results single [] all_results = all_results"
| "gather_results single (d # ds) all_results =
     (case single d of
        Inr results \<Rightarrow> gather_results single ds (all_results @ results)
      | Inl e \<Rightarrow> gather_results single ds all_results)"

text \<open>
  \<^verbatim>\<open>all_results.sort(key=lambda x: x["score"], reverse=True)\<close>. Python's sort is stable,
  and with \<^verbatim>\<open>reverse=True\<close> it reverses the list, sorts, and reverses again, so equal
  scores keep the order they had.
\<close>

definition sort_by_score_reverse :: "result list \<Rightarrow> result list" where
  "sort_by_score_reverse rs = rev (sort_key score (rev rs))"

definition retrieve_from_multiple_docs ::
  "'g python_lib \<Rightarrow> manager \<Rightarrow> 'g process \<Rightarrow> store \<Rightarrow> string \<Rightarrow> string list \<Rightarrow> int
     \<Rightarrow> result list" where
  "retrieve_from_multiple_docs L m p st query doc_ids top_k =
     slice_to top_k
       (sort_by_score_reverse
          (gather_results (\<lambda>d. retrieve_from_single_doc L m p st query d top_k) doc_ids []))"

section \<open>The chunker\<close>

text \<open>
  \<^verbatim>\<open>TextChunker.__init__\<close> stores the two sizes and builds a
  \<^verbatim>\<open>RecursiveCharacterTextSplitter\<close> from them, with no check of its own, so the
  constructor fails exactly when the splitter's does. The splitter class belongs to the
  langchain library: its constructor is the parameter \<open>new_splitter\<close>, its
  \<^verbatim>\<open>split_documents\<close> the parameter of \<open>chunk_document\<close>.
\<close>

record 'sp text_chunker =
  chunk_size :: int
  chunk_overlap :: int
  text_splitter :: "'sp"

definition TextChunker_init ::
  "(int \<Rightarrow> int \<Rightarrow> error + 'sp) \<Rightarrow> int \<Rightarrow> int \<Rightarrow> error + 'sp text_chunker" where
  "TextChunker_init new_splitter csize coverlap =
     (case new_splitter csize coverlap of
        Inl e \<Rightarrow> Inl e
      | Inr sp \<Rightarrow> Inr \<lparr>chunk_size = csize, chunk_overlap = coverlap, text_splitter = sp\<rparr>)"

definition chunk_document ::
  "('sp \<Rightarrow> document list \<Rightarrow> document list) \<Rightarrow> 'sp text_chunker \<Rightarrow> document list
     \<Rightarrow> document list" where
  "chunk_document split_documents chunker document =
     split_documents (text_splitter chunker) document"

text \<open>The splitter object, as far as the chunker's configuration goes: its two sizes.\<close>

record splitter =
  splitter_chunk_size :: int
  splitter_chunk_overlap :: int

text \<open>
  Modelled from the spec: the constructor of \<^verbatim>\<open>RecursiveCharacterTextSplitter\<close>, which
  \<^verbatim>\<open>text_chunker.py\<close> imports from langchain and which is not among the repository's
  sources. The specification (sections 4.2 and 7) makes \<^verbatim>\<open>max_tokens \<le> 0\<close> a
  configuration error that is reported to the caller before any chunking begins, and
  asks that the overlap stay below the size. The constructor checks the size first
  (the library's message is \<^verbatim>\<open>chunk_size must be > 0, got ...\<close>), then the overlap.
\<close>

definition RecursiveCharacterTextSplitter_init :: "int \<Rightarrow> int \<Rightarrow> error + splitter" where
  "RecursiveCharacterTextSplitter_init csize coverlap =
     (if csize \<le> 0 then Inl (SplitterValueError ''chunk_size must be > 0'')
      else if coverlap < 0 then Inl (SplitterValueError ''chunk_overlap must be >= 0'')
      else if coverlap > csize
        then Inl (SplitterValueError ''larger chunk overlap than chunk size'')
      else Inr \<lparr>splitter_chunk_size = csize, splitter_chunk_overlap = coverlap\<rparr>)"

text \<open>
  Constructing a chunker and invoking it, as the upload page does with the values of its
  two sliders: \<^verbatim>\<open>processor.chunker = TextChunker(chunk_size=..., chunk_overlap=...)\<close>
  in \<^verbatim>\<open>app.py\<close>, then \<^verbatim>\<open>self.chunker.chunk_document(document)\<close> in
  \<^verbatim>\<open>DocumentProcessor.process_document\<close>. An error of the constructor ends it.
\<close>

definition chunk_with_settings ::
  "(splitter \<Rightarrow> document list \<Rightarrow> document list) \<Rightarrow> int \<Rightarrow> int \<Rightarrow> document list
     \<Rightarrow> error + document list" where
  "chunk_with_settings split_documents csize coverlap document =
     (case TextChunker_init RecursiveCharacterTextSplitter_init csize coverlap of
        Inl e \<Rightarrow> Inl e
      | Inr chunker \<Rightarrow> Inr (chunk_document split_documents chunker document))"

section \<open>Predicates used in the statements\<close>

text \<open>
  The query vector and the stored vectors of a document have a norm other than zero, as
  every vector that the generators above or an embedding model produce has. At a vector
  of norm zero numpy's cosine is \<^verbatim>\<open>nan\<close>, which has no place in an order.
\<close>

definition nonzero_norms :: "(string \<Rightarrow> error + vector) \<Rightarrow> store \<Rightarrow> string \<Rightarrow> string \<Rightarrow> bool" where
  "nonzero_norms embed_fn st query doc =
     ((\<forall>q. embed_fn query = Inr q \<longrightarrow> linalg_norm q \<noteq> 0) \<and>
      (\<forall>embs. embeddings_pkl st doc = Some embs \<longrightarrow> (\<forall>e\<in>set embs. linalg_norm e \<noteq> 0)))"

text \<open>
  The order the specification asks of a ranked list, in its words: descending by
  similarity, and among equal similarities the lower chunk index first.
\<close>

definition ranked_with_index_tie_break :: "result list \<Rightarrow> bool" where
  "ranked_with_index_tie_break rs =
     sorted_wrt (\<lambda>a b. score b < score a \<or>
                        (score a = score b \<and> r_chunk_id a \<le> r_chunk_id b)) rs"

text \<open>What one document contributes to the merge: its results, or nothing if it failed.\<close>

definition local_results :: "(string \<Rightarrow> error + result list) \<Rightarrow> string \<Rightarrow> result list" where
  "local_results single d = (case single d of Inr results \<Rightarrow> results | Inl e \<Rightarrow> [])"

text \<open>
  \<^verbatim>\<open>np.random.randn\<close> returned as many samples as asked for, and not all of them zero,
  when run from the state that seed \<open>s\<close> installs.
\<close>

definition proper_draw :: "'g python_lib \<Rightarrow> nat \<Rightarrow> nat \<Rightarrow> bool" where
  "proper_draw L dimension s =
     (length (fst (randn L dimension (seed_state L s))) = dimension \<and>
      linalg_norm (fst (randn L dimension (seed_state L s))) \<noteq> 0)"

text \<open>An embedding client returns one vector per text.\<close>

definition one_vector_per_text :: "'g python_lib \<Rightarrow> bool" where
  "one_vector_per_text L =
     (\<forall>texts vs. provider_embed_documents L texts = Inr vs \<longrightarrow> length vs = length texts)"

section \<open>Concrete inputs\<close>

text \<open>
  Two functions that meet \<^const>\<open>argsort_contract\<close> and differ on equal values only: the
  first returns them in ascending position, the second in descending position.
\<close>

definition ascending_ties_argsort :: "real list \<Rightarrow> nat list" where
  "ascending_ties_argsort xs = sort_key (\<lambda>i. xs ! i) [0..<length xs]"

definition descending_ties_argsort :: "real list \<Rightarrow> nat list" where
  "descending_ties_argsort xs = rev (sort_key (\<lambda>i. - (xs ! i)) [0..<length xs])"

text \<open>
  An instance of the library parameters on which the definitions can be run. The
  generator state is a counter; a draw from state \<open>g\<close> is the unit vector along axis
  \<open>g\<close>; the string hash multiplies the secret with the length of the text; the
  embedding client answers every text with the vector \<open>(1, 0)\<close>; equal values are
  argsorted in ascending position.
\<close>

fun basis :: "nat \<Rightarrow> nat \<Rightarrow> vector" where
  "basis 0 k = []"
| "basis (Suc d) 0 = 1 # replicate d 0"
| "basis (Suc d) (Suc k) = 0 # basis d k"

definition demo_lib :: "nat python_lib" where
  "demo_lib =
     \<lparr>md5_int = length,
      str_hash = (\<lambda>secret text. int secret * int (length text)),
      seed_state = (\<lambda>s. s),
      randn = (\<lambda>d g. (basis d g, Suc g)),
      provider_embed_documents = (\<lambda>texts. Inr (map (\<lambda>t. [1, 0]) texts)),
      provider_embed_query = (\<lambda>t. Inr [1, 0]),
      np_argsort = ascending_ties_argsort\<rparr>"

text \<open>
  The managers \<^verbatim>\<open>EnhancedEmbeddingsManager(provider="mock")\<close> and
  \<^verbatim>\<open>EnhancedEmbeddingsManager(provider="huggingface")\<close>.
\<close>

definition mock_manager :: manager where
  "mock_manager = \<lparr>provider = ''mock'', has_client = False,
                    model_name = ''mock_embeddings'', embedding_dim = 384\<rparr>"

definition client_manager :: manager where
  "client_manager = \<lparr>provider = ''huggingface'', has_client = True,
                      model_name = ''all-MiniLM-L6-v2'', embedding_dim = 384\<rparr>"

text \<open>Two runs of the interpreter: they differ in the hash secret only.\<close>

definition first_run :: "nat process" where
  "first_run = \<lparr>hash_secret = 0, np_random = 0\<rparr>"

definition second_run :: "nat process" where
  "second_run = \<lparr>hash_secret = 1, np_random = 0\<rparr>"

text \<open>
  A store with four documents: \<open>A\<close> (two chunks), \<open>B\<close> (one chunk), \<open>T\<close> (two chunks
  with the same vector) and \<open>L\<close> (three vectors, one metadata entry).
\<close>

definition demo_md :: "string \<Rightarrow> string list \<Rightarrow> doc_metadata" where
  "demo_md doc texts =
     \<lparr>doc_id = doc, chunk_count = length texts, embedding_model = ''all-MiniLM-L6-v2'',
      embedding_provider = Some ''huggingface'',
      chunks = chunk_entries (map (\<lambda>t. \<lparr>page_content = t, metadata = []\<rparr>) texts),
      processing_time = 0\<rparr>"

definition demo_store :: store where
  "demo_store =
     \<lparr>embeddings_pkl =
        [''A'' \<mapsto> [[0, 1], [1, 0]], ''B'' \<mapsto> [[1, 0]],
         ''T'' \<mapsto> [[1, 0], [1, 0]], ''L'' \<mapsto> [[1, 0], [0, 1], [1, 0]]],
      metadata_json =
        [''A'' \<mapsto> demo_md ''A'' [''a0'', ''a1''], ''B'' \<mapsto> demo_md ''B'' [''b0''],
         ''T'' \<mapsto> demo_md ''T'' [''t0'', ''t1''], ''L'' \<mapsto> demo_md ''L'' [''l0'']]\<rparr>"

definition demo_result :: "nat \<Rightarrow> string \<Rightarrow> real \<Rightarrow> string option \<Rightarrow> result" where
  "demo_result i text s tag =
     \<lparr>r_chunk_id = i, r_content = text, score = s, r_metadata = [], r_doc_id = tag\<rparr>"

definition two_chunks :: "document list" where
  "two_chunks = [\<lparr>page_content = ''first'', metadata = []\<rparr>,
                 \<lparr>page_content = ''second'', metadata = []\<rparr>]"

section \<open>Facts about the building blocks\<close>

subsection \<open>Generators\<close>

lemma generate_mock_embedding_fst:
  "fst (generate_mock_embedding L text dimension p) =
     (let v = fst (randn L dimension (seed_state L (md5_int L text mod 10000000)))
      in divide_by v (linalg_norm v))"
  by (simp add: generate_mock_embedding_def np_random_randn_def np_random_seed_def Let_def
      split: prod.splits)

lemma enhanced_generate_mock_embedding_fst:
  "fst (enhanced_generate_mock_embedding L m text p) =
     (let v = fst (randn L (embedding_dim m)
                (seed_state L (nat (str_hash L (hash_secret p) text mod 10000000))))
      in divide_by v (linalg_norm v))"
  by (simp add: enhanced_generate_mock_embedding_def np_random_randn_def np_random_seed_def
      Let_def split: prod.splits)

text \<open>
  The MD5 variant gives the same vector from any two process states, so in any two runs:
  the seed overwrites numpy's generator state and nothing else is read.
\<close>

lemma generate_mock_embedding_any_process:
  "fst (generate_mock_embedding L text dimension p) =
   fst (generate_mock_embedding L text dimension p')"
  by (simp add: generate_mock_embedding_fst)

text \<open>The \<^verbatim>\<open>hash\<close> variant gives the same vector as long as the hash secret is the same.\<close>

lemma enhanced_generate_mock_embedding_same_secret:
  "hash_secret p = hash_secret p' \<Longrightarrow>
   fst (enhanced_generate_mock_embedding L m text p) =
   fst (enhanced_generate_mock_embedding L m text p')"
  by (simp add: enhanced_generate_mock_embedding_fst)

lemma sum_squares_divide_by:
  "sum_list (map (\<lambda>x. x * x) (divide_by v c)) = sum_list (map (\<lambda>x. x * x) v) / (c * c)"
  by (induction v) (simp_all add: divide_by_def add_divide_distrib)

lemma sum_squares_nonneg: "0 \<le> sum_list (map (\<lambda>x. x * x) (v :: vector))"
  by (induction v) simp_all

lemma linalg_norm_normalised:
  assumes "linalg_norm v \<noteq> 0"
  shows "linalg_norm (divide_by v (linalg_norm v)) = 1"
proof -
  let ?S = "sum_list (map (\<lambda>x. x * x) v)"
  have "linalg_norm v * linalg_norm v = ?S"
    using sum_squares_nonneg[of v] by (simp add: linalg_norm_def)
  then have "linalg_norm (divide_by v (linalg_norm v)) = sqrt (?S / ?S)"
    by (simp add: linalg_norm_def sum_squares_divide_by)
  moreover have "?S \<noteq> 0"
    using assms by (auto simp: linalg_norm_def)
  ultimately show ?thesis by simp
qed

lemma length_divide_by: "length (divide_by v c) = length v"
  by (simp add: divide_by_def)

lemma length_basis: "length (basis d k) = d"
  by (induction d k rule: basis.induct) simp_all

lemma sum_squares_basis:
  "sum_list (map (\<lambda>x. x * x) (basis d k)) = (if k < d then 1 else 0)"
  by (induction d k rule: basis.induct) (simp_all add: sum_list_replicate)

lemma linalg_norm_basis: "linalg_norm (basis d k) = (if k < d then 1 else 0)"
  by (simp add: linalg_norm_def sum_squares_basis)

lemma divide_by_one: "divide_by v 1 = v"
  by (simp add: divide_by_def)

lemma mock_manager_init: "EnhancedEmbeddingsManager_init key_set ''mock'' = Inr mock_manager"
  by (simp add: EnhancedEmbeddingsManager_init_def mock_manager_def)

lemma enhanced_first_run:
  "fst (enhanced_generate_mock_embedding demo_lib mock_manager ''x'' first_run) = basis 384 0"
  by (simp add: enhanced_generate_mock_embedding_fst demo_lib_def mock_manager_def
      first_run_def linalg_norm_basis divide_by_one)

lemma enhanced_second_run:
  "fst (enhanced_generate_mock_embedding demo_lib mock_manager ''x'' second_run) = basis 384 1"
  by (simp add: enhanced_generate_mock_embedding_fst demo_lib_def mock_manager_def
      second_run_def linalg_norm_basis divide_by_one)

lemma basis_0_neq_1: "basis 384 0 \<noteq> basis 384 1"
  by (simp add: numeral_eq_Suc)

subsection \<open>Writing the store\<close>

lemma length_embed_each: "embed_each gen ts p = (es, p') \<Longrightarrow> length es = length ts"
  by (induction ts arbitrary: p es p') (auto split: prod.splits)

lemma length_chunk_entries: "length (chunk_entries chunk_list) = length chunk_list"
  by (simp add: chunk_entries_def)

lemma nth_chunk_entries:
  "i < length chunk_list \<Longrightarrow>
   chunk_entries chunk_list ! i =
     \<lparr>chunk_id = i, content = page_content (chunk_list ! i),
      entry_metadata = metadata (chunk_list ! i)\<rparr>"
  by (simp add: chunk_entries_def nth_enumerate_eq)

subsection \<open>Slices, \<^verbatim>\<open>argsort\<close> and the selected positions\<close>

lemma length_slice_from_neg:
  "1 \<le> k \<Longrightarrow> length (slice_from (- k) xs) = min (length xs) (nat k)"
  by (auto simp: slice_from_def Let_def)

lemma slice_from_all:
  "int (length xs) \<le> k \<Longrightarrow> 1 \<le> k \<Longrightarrow> slice_from (- k) xs = xs"
  by (auto simp: slice_from_def Let_def)

lemma slice_from_is_drop: "\<exists>n. slice_from s xs = drop n xs"
  by (auto simp: slice_from_def Let_def)

lemma slice_to_nonneg: "0 \<le> k \<Longrightarrow> slice_to k xs = take (nat k) xs"
  by (auto simp: slice_to_def Let_def min_def)

text \<open>What follows from the contract of \<^verbatim>\<open>np.argsort\<close>, for any function that meets it.\<close>

lemma argsort_contract_mset:
  "argsort_contract argsort_fn \<Longrightarrow> mset (argsort_fn xs) = mset [0..<length xs]"
  by (simp add: argsort_contract_def is_argsort_def)

lemma argsort_contract_set:
  "argsort_contract argsort_fn \<Longrightarrow> set (argsort_fn xs) = {0..<length xs}"
  using argsort_contract_mset[of argsort_fn xs] mset_eq_setD[of "argsort_fn xs" "[0..<length xs]"]
  by simp

lemma argsort_contract_length:
  "argsort_contract argsort_fn \<Longrightarrow> length (argsort_fn xs) = length xs"
  using argsort_contract_mset[of argsort_fn xs]
    mset_eq_length[of "argsort_fn xs" "[0..<length xs]"]
  by simp

lemma argsort_contract_sorted:
  "argsort_contract argsort_fn \<Longrightarrow> sorted_wrt (\<lambda>i j. xs ! i \<le> xs ! j) (argsort_fn xs)"
  by (simp add: argsort_contract_def is_argsort_def sorted_wrt_map)

lemma ascending_ties_argsort_contract: "argsort_contract ascending_ties_argsort"
  by (simp add: argsort_contract_def is_argsort_def ascending_ties_argsort_def)

lemma descending_ties_argsort_contract: "argsort_contract descending_ties_argsort"
proof -
  have "sorted (map (\<lambda>i. xs ! i) (descending_ties_argsort xs))" for xs :: "real list"
  proof -
    let ?ys = "sort_key (\<lambda>i. - (xs ! i)) [0..<length xs]"
    have "sorted (map (\<lambda>i. - (xs ! i)) ?ys)" by simp
    then have "sorted_wrt (\<lambda>i j. xs ! j \<le> xs ! i) ?ys"
      by (simp add: sorted_wrt_map)
    then show ?thesis
      by (simp add: descending_ties_argsort_def sorted_wrt_map sorted_wrt_rev flip: rev_map)
  qed
  then show ?thesis
    by (simp add: argsort_contract_def is_argsort_def) (simp add: descending_ties_argsort_def)
qed

text \<open>The selected positions run down by value, whatever the order among equal values.\<close>

lemma top_indices_descending:
  assumes "argsort_contract argsort_fn"
  shows "sorted_wrt (\<lambda>i j. sims ! j \<le> sims ! i) (top_indices argsort_fn sims k)"
proof -
  obtain n where n: "slice_from (- k) (argsort_fn sims) = drop n (argsort_fn sims)"
    using slice_from_is_drop by blast
  have "sorted_wrt (\<lambda>i j. sims ! i \<le> sims ! j) (drop n (argsort_fn sims))"
    by (rule sorted_wrt_drop) (rule argsort_contract_sorted[OF assms])
  then show ?thesis
    by (simp add: top_indices_def n sorted_wrt_rev)
qed

text \<open>Every selected position is a position of the similarity list.\<close>

lemma set_top_indices:
  assumes "argsort_contract argsort_fn"
  shows "set (top_indices argsort_fn sims k) \<subseteq> {0..<length sims}"
proof -
  obtain n where n: "slice_from (- k) (argsort_fn sims) = drop n (argsort_fn sims)"
    using slice_from_is_drop by blast
  show ?thesis
    unfolding top_indices_def n using set_drop_subset[of n "argsort_fn sims"]
    by (simp add: argsort_contract_set[OF assms])
qed

text \<open>The slice \<^verbatim>\<open>[-top_k:]\<close> keeps at most \<^verbatim>\<open>top_k\<close> positions of any list.\<close>

lemma length_top_indices:
  "1 \<le> k \<Longrightarrow> length (top_indices argsort_fn sims k) \<le> nat k"
  by (simp add: top_indices_def length_slice_from_neg)

lemma top_indices_all:
  "argsort_contract argsort_fn \<Longrightarrow> int (length sims) \<le> k \<Longrightarrow> 1 \<le> k \<Longrightarrow>
   top_indices argsort_fn sims k = rev (argsort_fn sims)"
  by (simp add: top_indices_def slice_from_all argsort_contract_length)

subsection \<open>The body of \<^verbatim>\<open>retrieve\<close>\<close>

lemma collect_results_filter:
  "collect_results tag entries sims idxs =
     map (make_result tag entries sims) (filter (\<lambda>idx. idx < length entries) idxs)"
  by (induction idxs) simp_all

lemma similarities_same_length:
  "\<forall>e\<in>set embs. length e = length q \<Longrightarrow>
     similarities q embs = Inr (map (\<lambda>e. dot q e / (linalg_norm q * linalg_norm e)) embs)"
  by (induction embs) (auto simp: cosine_similarity_def)

lemma score_make_result: "score (make_result tag entries sims i) = sims ! i"
  by (simp add: make_result_def Let_def)

lemma chunk_id_make_result:
  "r_chunk_id (make_result tag entries sims i) = chunk_id (entries ! i)"
  by (simp add: make_result_def Let_def)

lemma content_make_result:
  "r_content (make_result tag entries sims i) = content (entries ! i)"
  by (simp add: make_result_def Let_def)

lemma retrieve_with_Inr:
  assumes "retrieve_with argsort_fn embed_fn tag st query doc top_k = Inr rs"
  obtains embs md q sims where
    "embeddings_pkl st doc = Some embs" "metadata_json st doc = Some md"
    "embed_fn query = Inr q" "similarities q embs = Inr sims"
    "rs = map (make_result tag (chunks md) sims)
            (filter (\<lambda>idx. idx < length (chunks md)) (top_indices argsort_fn sims top_k))"
  using assms
  by (auto simp: retrieve_with_def collect_results_filter split: option.splits sum.splits)

lemma retrieve_with_succeeds:
  assumes "embeddings_pkl st doc = Some embs" "metadata_json st doc = Some md"
    "embed_fn query = Inr q" "\<forall>e\<in>set embs. length e = length q"
  shows "\<exists>sims. similarities q embs = Inr sims \<and> length sims = length embs \<and>
     retrieve_with argsort_fn embed_fn tag st query doc top_k =
       Inr (map (make_result tag (chunks md) sims)
            (filter (\<lambda>idx. idx < length (chunks md)) (top_indices argsort_fn sims top_k)))"
  using assms similarities_same_length[of embs q]
  by (simp add: retrieve_with_def collect_results_filter)

lemma retrieve_with_no_embeddings:
  "embeddings_pkl st doc = None \<Longrightarrow>
   retrieve_with argsort_fn embed_fn tag st query doc top_k = Inl (NoEmbeddingsFound doc)"
  by (simp add: retrieve_with_def)

subsection \<open>The merge\<close>

lemma gather_results_concat:
  "gather_results single ds acc = acc @ concat (map (local_results single) ds)"
  by (induction ds arbitrary: acc) (auto simp: local_results_def split: sum.splits)

lemma mset_sort_by_score_reverse: "mset (sort_by_score_reverse rs) = mset rs"
  by (simp add: sort_by_score_reverse_def)

lemma sorted_sort_by_score_reverse:
  "sorted_wrt (\<lambda>a b. score b \<le> score a) (sort_by_score_reverse rs)"
proof -
  have "sorted (map score (sort_key score (rev rs)))" by simp
  then have "sorted_wrt (\<lambda>a b. score a \<le> score b) (sort_key score (rev rs))"
    by (simp add: sorted_wrt_map)
  then show ?thesis by (simp add: sort_by_score_reverse_def sorted_wrt_rev)
qed

lemma stable_sort_by_score_reverse:
  "filter (\<lambda>r. score r = s) (sort_by_score_reverse rs) = filter (\<lambda>r. score r = s) rs"
  by (simp add: sort_by_score_reverse_def sort_key_stable flip: rev_filter)

subsection \<open>Runs on the concrete store\<close>

lemmas run_defs =
  retrieve_from_multiple_docs_def retrieve_from_single_doc_def SimpleRetriever_retrieve_def
  embed_query_def retrieve_with_def demo_store_def demo_md_def demo_lib_def
  client_manager_def first_run_def chunk_entries_def enumerate_eq_zip upt_rec
  make_result_def demo_result_def cosine_similarity_def dot_def linalg_norm_def
  top_indices_def ascending_ties_argsort_def descending_ties_argsort_def slice_from_def
  slice_to_def sort_by_score_reverse_def

lemma run_simple_T:
  "SimpleRetriever_retrieve demo_lib demo_store ''q'' ''T'' 2 =
     Inr [demo_result 1 ''t1'' 1 None, demo_result 0 ''t0'' 1 None]"
  by (simp add: run_defs)

text \<open>The same call with the other order among equal values returns chunk 0 first.\<close>

lemma run_T_descending_ties:
  "retrieve_with descending_ties_argsort (provider_embed_query demo_lib) None demo_store
     ''q'' ''T'' 2 =
     Inr [demo_result 0 ''t0'' 1 None, demo_result 1 ''t1'' 1 None]"
  by (simp add: run_defs)

lemma run_simple_A:
  "SimpleRetriever_retrieve demo_lib demo_store ''q'' ''A'' 3 =
     Inr [demo_result 1 ''a1'' 1 None, demo_result 0 ''a0'' 0 None]"
  by (simp add: run_defs)

lemma run_simple_L:
  "SimpleRetriever_retrieve demo_lib demo_store ''q'' ''L'' 2 =
     Inr [demo_result 0 ''l0'' 1 None]"
  by (simp add: run_defs)

lemma run_multi_AB:
  "retrieve_from_multiple_docs demo_lib client_manager first_run demo_store ''q''
     [''A'', ''B''] 2 =
     [demo_result 1 ''a1'' 1 (Some ''A''), demo_result 0 ''b0'' 1 (Some ''B'')]"
  by (simp add: run_defs)

lemma run_single_missing:
  "retrieve_from_single_doc demo_lib client_manager first_run demo_store ''q'' ''missing'' 2 =
     Inl (NoEmbeddingsFound ''missing'')"
  by (simp add: run_defs)

lemma not_ranked_1_0:
  "\<not> ranked_with_index_tie_break [demo_result 1 t1 1 tag1, demo_result 0 t0 1 tag0]"
  by (simp add: ranked_with_index_tie_break_def demo_result_def)

section \<open>The claims\<close>

subsection \<open>C1: the mock generator across process runs\<close>

text \<open>
  Claim C1 says that the mock generator returns the same vector for the same text in
  one run and in two separate runs. \<^verbatim>\<open>MockEmbeddingsManager\<close> does
  (\<open>generate_mock_embedding_any_process\<close>), and \<^verbatim>\<open>EnhancedEmbeddingsManager\<close> does within
  one run (\<open>enhanced_generate_mock_embedding_same_secret\<close>). Across runs the latter seeds
  from \<^verbatim>\<open>hash(text)\<close>, which depends on the run's hash secret: for the manager built
  with \<^verbatim>\<open>provider="mock"\<close> and the text \<^verbatim>\<open>"x"\<close>, two runs that differ in the secret
  alone draw from different seeds and return different vectors.
\<close>

theorem enhanced_mock_embedding_differs_between_runs:
  "EnhancedEmbeddingsManager_init False ''mock'' = Inr mock_manager \<and>
   np_random first_run = np_random second_run \<and>
   fst (enhanced_generate_mock_embedding demo_lib mock_manager ''x'' first_run) \<noteq>
   fst (enhanced_generate_mock_embedding demo_lib mock_manager ''x'' second_run)"
proof (intro conjI)
  show "EnhancedEmbeddingsManager_init False ''mock'' = Inr mock_manager"
    by (rule mock_manager_init)
  show "np_random first_run = np_random second_run"
    by (simp add: first_run_def second_run_def)
  show "fst (enhanced_generate_mock_embedding demo_lib mock_manager ''x'' first_run) \<noteq>
        fst (enhanced_generate_mock_embedding demo_lib mock_manager ''x'' second_run)"
    by (simp only: enhanced_first_run enhanced_second_run basis_0_neq_1 not_False_eq_True)
qed

subsection \<open>C8: dimension and norm of a mock vector\<close>

text \<open>
  Claim C8: for every text and dimension, the mock generator returns a vector of exactly
  that dimension and of Euclidean norm one. Both generators do, in exact arithmetic,
  whenever \<^verbatim>\<open>np.random.randn\<close> delivers the samples it is asked for and they are not all
  zero; the rounding of float64 is what the claim's tolerance allows for.
\<close>

theorem mock_embedding_dimension_and_norm:
  "(proper_draw L dimension (md5_int L text mod 10000000) \<longrightarrow>
      length (fst (generate_mock_embedding L text dimension p)) = dimension \<and>
      linalg_norm (fst (generate_mock_embedding L text dimension p)) = 1) \<and>
   (proper_draw L (embedding_dim m) (nat (str_hash L (hash_secret p) text mod 10000000)) \<longrightarrow>
      length (fst (enhanced_generate_mock_embedding L m text p)) = embedding_dim m \<and>
      linalg_norm (fst (enhanced_generate_mock_embedding L m text p)) = 1)"
  by (simp add: proper_draw_def generate_mock_embedding_fst
      enhanced_generate_mock_embedding_fst Let_def linalg_norm_normalised length_divide_by)

theorem mock_embedding_dimension_and_norm_witness:
  "proper_draw demo_lib 384 (md5_int demo_lib ''x'' mod 10000000) \<and>
   length (fst (generate_mock_embedding demo_lib ''x'' 384 first_run)) = 384 \<and>
   linalg_norm (fst (generate_mock_embedding demo_lib ''x'' 384 first_run)) = 1 \<and>
   proper_draw demo_lib (embedding_dim mock_manager)
     (nat (str_hash demo_lib (hash_secret first_run) ''x'' mod 10000000)) \<and>
   length (fst (enhanced_generate_mock_embedding demo_lib mock_manager ''x'' first_run)) = 384 \<and>
   linalg_norm (fst (enhanced_generate_mock_embedding demo_lib mock_manager ''x'' first_run)) = 1"
proof -
  have d1: "proper_draw demo_lib 384 (md5_int demo_lib ''x'' mod 10000000)"
    by (simp add: proper_draw_def demo_lib_def length_basis linalg_norm_basis)
  have d2: "proper_draw demo_lib (embedding_dim mock_manager)
     (nat (str_hash demo_lib (hash_secret first_run) ''x'' mod 10000000))"
    by (simp add: proper_draw_def demo_lib_def mock_manager_def first_run_def length_basis
        linalg_norm_basis)
  have dim: "embedding_dim mock_manager = 384"
    by (simp add: mock_manager_def)
  show ?thesis
    using d1 d2 dim
      mock_embedding_dimension_and_norm[of demo_lib 384 "''x''" first_run mock_manager]
    by simp
qed

subsection \<open>C9: what \<^verbatim>\<open>embed_chunks\<close> leaves in the store\<close>

text \<open>
  Claim C9: after a call of \<^verbatim>\<open>embed_chunks(chunks, doc_id)\<close> the record of \<open>doc_id\<close>
  is aligned: as many vectors as chunks, as many metadata entries, \<^verbatim>\<open>chunk_count\<close>
  equal to that number, and entry \<open>i\<close> with \<^verbatim>\<open>chunk_id\<close> \<open>i\<close> and the content of chunk
  \<open>i\<close>. This holds for \<^verbatim>\<open>MockEmbeddingsManager\<close>, and for every call of
  \<^verbatim>\<open>EnhancedEmbeddingsManager.embed_chunks\<close> that returns, given that an external client
  answers with one vector per text.
\<close>

theorem embed_chunks_aligned:
  "(embed_chunks L chunk_list doc elapsed st p = (st', p') \<longrightarrow>
      aligned_with st' doc chunk_list) \<and>
   (one_vector_per_text L \<longrightarrow>
    enhanced_embed_chunks L m chunk_list doc elapsed st p = Inr (st', p') \<longrightarrow>
      aligned_with st' doc chunk_list)"
proof (intro conjI impI)
  assume "embed_chunks L chunk_list doc elapsed st p = (st', p')"
  then show "aligned_with st' doc chunk_list"
    by (auto dest: length_embed_each
        simp: embed_chunks_def aligned_with_def Let_def length_chunk_entries nth_chunk_entries
        split: prod.splits)
next
  assume contract: "one_vector_per_text L"
    and call: "enhanced_embed_chunks L m chunk_list doc elapsed st p = Inr (st', p')"
  from call obtain embeddings where
    e: "embed_documents L m (map page_content chunk_list) p = Inr (embeddings, p')"
    and st': "st' = st\<lparr>embeddings_pkl := (embeddings_pkl st)(doc \<mapsto> embeddings),
                     metadata_json := (metadata_json st)(doc \<mapsto>
                       \<lparr>doc_id = doc, chunk_count = length chunk_list,
                        embedding_model = model_name m,
                        embedding_provider = Some (provider m),
                        chunks = chunk_entries chunk_list, processing_time = elapsed\<rparr>)\<rparr>"
    by (auto simp: enhanced_embed_chunks_def Let_def split: sum.splits prod.splits)
  have "length embeddings = length chunk_list"
    using e contract
    by (auto dest: length_embed_each simp: embed_documents_def one_vector_per_text_def
        split: if_splits sum.splits)
  then show "aligned_with st' doc chunk_list"
    by (simp add: st' aligned_with_def length_chunk_entries nth_chunk_entries)
qed

theorem embed_chunks_aligned_witness:
  "one_vector_per_text demo_lib \<and>
   (\<exists>st' p'. embed_chunks demo_lib two_chunks ''D'' 0 demo_store first_run = (st', p') \<and>
       aligned_with st' ''D'' two_chunks) \<and>
   (\<exists>st' p'. enhanced_embed_chunks demo_lib client_manager two_chunks ''D'' 0 demo_store
                first_run = Inr (st', p') \<and>
       aligned_with st' ''D'' two_chunks)"
proof -
  have c: "one_vector_per_text demo_lib"
    by (auto simp: one_vector_per_text_def demo_lib_def)
  obtain st1 p1 where
    r1: "embed_chunks demo_lib two_chunks ''D'' 0 demo_store first_run = (st1, p1)"
    by (cases "embed_chunks demo_lib two_chunks ''D'' 0 demo_store first_run")
  obtain st2 p2 where
    r2: "enhanced_embed_chunks demo_lib client_manager two_chunks ''D'' 0 demo_store
           first_run = Inr (st2, p2)"
    by (simp add: enhanced_embed_chunks_def embed_documents_def client_manager_def
        demo_lib_def Let_def)
  show ?thesis
    using c r1 r2
      embed_chunks_aligned[of demo_lib two_chunks "''D''" 0 demo_store first_run st1 p1]
      embed_chunks_aligned[of demo_lib two_chunks "''D''" 0 demo_store first_run st2 p2
        client_manager]
    by blast
qed

subsection \<open>C5: no embeddings file\<close>

text \<open>
  Claim C5: \<^verbatim>\<open>retrieve\<close> for a document id without persisted embeddings raises the
  not-found error (\<^verbatim>\<open>ValueError("No embeddings found for document ...")\<close>), whatever the
  query and \<^verbatim>\<open>top_k\<close>; it does not return an empty list. All three retrievers do so.
\<close>

theorem retrieve_without_embeddings_raises:
  assumes "embeddings_pkl st doc = None"
  shows "MockRetriever_retrieve L p st query doc top_k = Inl (NoEmbeddingsFound doc) \<and>
         SimpleRetriever_retrieve L st query doc top_k = Inl (NoEmbeddingsFound doc) \<and>
         retrieve_from_single_doc L m p st query doc top_k = Inl (NoEmbeddingsFound doc) \<and>
         MockRetriever_retrieve L p st query doc top_k \<noteq> Inr [] \<and>
         SimpleRetriever_retrieve L st query doc top_k \<noteq> Inr [] \<and>
         retrieve_from_single_doc L m p st query doc top_k \<noteq> Inr []"
  using assms
  by (simp add: MockRetriever_retrieve_def SimpleRetriever_retrieve_def
      retrieve_from_single_doc_def retrieve_with_no_embeddings)

theorem retrieve_without_embeddings_raises_witness:
  "embeddings_pkl demo_store ''missing_doc'' = None \<and>
   MockRetriever_retrieve demo_lib first_run demo_store ''x'' ''missing_doc'' 3 =
     Inl (NoEmbeddingsFound ''missing_doc'') \<and>
   SimpleRetriever_retrieve demo_lib demo_store ''x'' ''missing_doc'' 3 =
     Inl (NoEmbeddingsFound ''missing_doc'') \<and>
   retrieve_from_single_doc demo_lib client_manager first_run demo_store ''x''
     ''missing_doc'' 3 = Inl (NoEmbeddingsFound ''missing_doc'')"
proof -
  have none: "embeddings_pkl demo_store ''missing_doc'' = None"
    by (simp add: demo_store_def)
  show ?thesis
    using none
      retrieve_without_embeddings_raises[OF none, of demo_lib first_run "''x''" 3 client_manager]
    by simp
qed

subsection \<open>C2: size and order of a single-document result\<close>

text \<open>
  Claim C2 asks for at most \<^verbatim>\<open>top_k\<close> results in non-increasing order of similarity,
  with the lower chunk index first among equal similarities. The code has no tie-break:
  it reverses what \<^verbatim>\<open>np.argsort\<close> returns, and \<^verbatim>\<open>np.argsort\<close> fixes no order among
  equal values. When it returns them in ascending position, as it does for the two
  equal similarities of document \<open>T\<close>, the reversal puts chunk 1 before chunk 0.
\<close>

theorem retrieve_tie_break_counterexample:
  "argsort_contract (np_argsort demo_lib) \<and>
   SimpleRetriever_retrieve demo_lib demo_store ''q'' ''T'' 2 =
     Inr [demo_result 1 ''t1'' 1 None, demo_result 0 ''t0'' 1 None] \<and>
   \<not> ranked_with_index_tie_break [demo_result 1 ''t1'' 1 None, demo_result 0 ''t0'' 1 None]"
proof (intro conjI)
  show "argsort_contract (np_argsort demo_lib)"
    by (simp add: demo_lib_def ascending_ties_argsort_contract)
  show "SimpleRetriever_retrieve demo_lib demo_store ''q'' ''T'' 2 =
     Inr [demo_result 1 ''t1'' 1 None, demo_result 0 ''t0'' 1 None]"
    by (rule run_simple_T)
  show "\<not> ranked_with_index_tie_break
          [demo_result 1 ''t1'' 1 None, demo_result 0 ''t0'' 1 None]"
    by (rule not_ranked_1_0)
qed

text \<open>
  Claim C2, amended: for every query and \<^verbatim>\<open>top_k \<ge> 1\<close>, and every stored document whose
  vectors, like the query vector, have a norm other than zero, \<^verbatim>\<open>retrieve\<close> returns at
  most \<^verbatim>\<open>top_k\<close> results in non-increasing order of similarity. The order among results
  of equal similarity is not specified: it is the one \<^verbatim>\<open>np.argsort\<close> happens to return,
  reversed, and chunk indices play no part in it (\<open>run_simple_T\<close> and
  \<open>run_T_descending_ties\<close> give both orders for the same call). The statement holds for
  every function that meets the contract of \<^verbatim>\<open>np.argsort\<close>; \<open>retrieve_with\<close> is the body
  of all three retrievers.
\<close>

theorem retrieve_ranked:
  assumes "argsort_contract argsort_fn"
      and "nonzero_norms embed_fn st query doc"
      and "retrieve_with argsort_fn embed_fn tag st query doc top_k = Inr rs"
      and "1 \<le> top_k"
  shows "length rs \<le> nat top_k \<and> sorted_wrt (\<lambda>a b. score b \<le> score a) rs"
proof -
  from assms(3) obtain md :: doc_metadata and sims where
    rs: "rs = map (make_result tag (chunks md) sims)
            (filter (\<lambda>idx. idx < length (chunks md)) (top_indices argsort_fn sims top_k))"
    by (rule retrieve_with_Inr) blast
  let ?keep = "filter (\<lambda>idx. idx < length (chunks md)) (top_indices argsort_fn sims top_k)"
  have len: "length rs \<le> nat top_k"
  proof -
    have "length rs \<le> length (top_indices argsort_fn sims top_k)" by (simp add: rs)
    also have "\<dots> \<le> nat top_k" using assms(4) by (rule length_top_indices)
    finally show ?thesis .
  qed
  have down: "sorted_wrt (\<lambda>i j. sims ! j \<le> sims ! i) ?keep"
    by (rule sorted_wrt_filter) (rule top_indices_descending[OF assms(1)])
  have desc: "sorted_wrt (\<lambda>a b. score b \<le> score a) rs"
    unfolding rs sorted_wrt_map
    by (rule sorted_wrt_mono_rel[OF _ down]) (simp add: score_make_result)
  show ?thesis using len desc by simp
qed

theorem retrieve_ranked_witness:
  "argsort_contract descending_ties_argsort \<and>
   nonzero_norms (provider_embed_query demo_lib) demo_store ''q'' ''T'' \<and>
   retrieve_with descending_ties_argsort (provider_embed_query demo_lib) None demo_store
     ''q'' ''T'' 2 = Inr [demo_result 0 ''t0'' 1 None, demo_result 1 ''t1'' 1 None] \<and>
   (1::int) \<le> 2 \<and>
   length [demo_result 0 ''t0'' 1 None, demo_result 1 ''t1'' 1 None] \<le> nat 2 \<and>
   sorted_wrt (\<lambda>a b. score b \<le> score a)
     [demo_result 0 ''t0'' 1 None, demo_result 1 ''t1'' 1 None]"
proof -
  have nz: "nonzero_norms (provider_embed_query demo_lib) demo_store ''q'' ''T''"
    by (auto simp: nonzero_norms_def demo_lib_def demo_store_def linalg_norm_def)
  have k: "(1::int) \<le> 2" by simp
  from retrieve_ranked[OF descending_ties_argsort_contract nz run_T_descending_ties k]
  show ?thesis
    using descending_ties_argsort_contract nz run_T_descending_ties by simp
qed

subsection \<open>C7: \<^verbatim>\<open>top_k\<close> beyond the chunk count\<close>

text \<open>
  Claim C7: for a stored document and \<^verbatim>\<open>top_k \<ge> 1\<close> larger than the document's chunk
  count, \<^verbatim>\<open>retrieve\<close> raises nothing on that account and returns one result per stored
  chunk, so fewer than \<^verbatim>\<open>top_k\<close>. A stored document is one with both files, vectors of
  the query's dimension and as many metadata entries as vectors. The statement holds for
  every function that meets the contract of \<^verbatim>\<open>np.argsort\<close>, so for every order it may
  give to equal similarities.
\<close>

theorem retrieve_top_k_beyond_chunks:
  assumes "embeddings_pkl st doc = Some embs" "metadata_json st doc = Some md"
    "embed_fn query = Inr q" "\<forall>e\<in>set embs. length e = length q"
    "length (chunks md) = length embs" "1 \<le> top_k" "int (length embs) < top_k"
    "argsort_contract argsort_fn"
  shows "\<exists>rs. retrieve_with argsort_fn embed_fn tag st query doc top_k = Inr rs \<and>
           length rs = length embs \<and> length rs < nat top_k \<and>
           mset (map r_chunk_id rs) = mset (map chunk_id (chunks md)) \<and>
           mset (map r_content rs) = mset (map content (chunks md))"
proof -
  note c = assms(8)
  from retrieve_with_succeeds[where embed_fn = embed_fn and query = query,
      OF assms(1-4), of argsort_fn tag top_k]
  obtain sims where
    len: "length sims = length embs" and
    r: "retrieve_with argsort_fn embed_fn tag st query doc top_k =
       Inr (map (make_result tag (chunks md) sims)
            (filter (\<lambda>idx. idx < length (chunks md)) (top_indices argsort_fn sims top_k)))"
    by blast
  have top: "top_indices argsort_fn sims top_k = rev (argsort_fn sims)"
    using assms(6,7) len by (simp add: top_indices_all[OF c])
  have keep: "filter (\<lambda>idx. idx < length (chunks md)) (rev (argsort_fn sims)) =
              rev (argsort_fn sims)"
    using assms(5) len by (simp add: argsort_contract_set[OF c])
  let ?rs = "map (make_result tag (chunks md) sims) (rev (argsort_fn sims))"
  have n: "length (chunks md) = length sims" using assms(5) len by simp
  have ids: "mset (map r_chunk_id ?rs) = mset (map chunk_id (chunks md))"
  proof -
    have "mset (map r_chunk_id ?rs) =
          image_mset (\<lambda>i. chunk_id (chunks md ! i)) (mset (argsort_fn sims))"
      by (simp add: comp_def chunk_id_make_result)
    also have "\<dots> = mset (map (\<lambda>i. chunk_id (chunks md ! i)) [0..<length (chunks md)])"
      by (simp add: argsort_contract_mset[OF c] n)
    also have "\<dots> = mset (map chunk_id (chunks md))"
      by (simp add: map_nth flip: map_map[unfolded comp_def])
    finally show ?thesis .
  qed
  have cont: "mset (map r_content ?rs) = mset (map content (chunks md))"
  proof -
    have "mset (map r_content ?rs) =
          image_mset (\<lambda>i. content (chunks md ! i)) (mset (argsort_fn sims))"
      by (simp add: comp_def content_make_result)
    also have "\<dots> = mset (map (\<lambda>i. content (chunks md ! i)) [0..<length (chunks md)])"
      by (simp add: argsort_contract_mset[OF c] n)
    also have "\<dots> = mset (map content (chunks md))"
      by (simp add: map_nth flip: map_map[unfolded comp_def])
    finally show ?thesis .
  qed
  have l1: "length ?rs = length embs" by (simp add: argsort_contract_length[OF c] len)
  have l2: "length ?rs < nat top_k"
    using assms(7) by (simp add: argsort_contract_length[OF c] len)
  have "retrieve_with argsort_fn embed_fn tag st query doc top_k = Inr ?rs"
    using r unfolding top keep .
  then show ?thesis using l1 l2 ids cont by blast
qed

theorem retrieve_top_k_beyond_chunks_witness:
  "embeddings_pkl demo_store ''A'' = Some [[0, 1], [1, 0]] \<and>
   metadata_json demo_store ''A'' = Some (demo_md ''A'' [''a0'', ''a1'']) \<and>
   (1::int) \<le> 3 \<and> int (length [[0, 1], [1, 0 :: real]]) < 3 \<and>
   argsort_contract (np_argsort demo_lib) \<and>
   (\<exists>rs. retrieve_with (np_argsort demo_lib) (provider_embed_query demo_lib) None demo_store
           ''q'' ''A'' 3 = Inr rs \<and>
      length rs = 2 \<and> length rs < nat 3) \<and>
   retrieve_with (np_argsort demo_lib) (provider_embed_query demo_lib) None demo_store
     ''q'' ''A'' 3 =
     Inr [demo_result 1 ''a1'' 1 None, demo_result 0 ''a0'' 0 None]"
proof -
  have e: "embeddings_pkl demo_store ''A'' = Some [[0, 1], [1, 0]]"
    by (simp add: demo_store_def)
  have m: "metadata_json demo_store ''A'' = Some (demo_md ''A'' [''a0'', ''a1''])"
    by (simp add: demo_store_def)
  have q: "provider_embed_query demo_lib ''q'' = Inr [1, 0]"
    by (simp add: demo_lib_def)
  have d: "\<forall>e\<in>set [[0, 1], [1, 0 :: real]]. length e = length [1, 0 :: real]"
    by simp
  have a: "length (chunks (demo_md ''A'' [''a0'', ''a1''])) = length [[0, 1], [1, 0 :: real]]"
    by (simp add: demo_md_def length_chunk_entries)
  have k1: "(1::int) \<le> 3" and k2: "int (length [[0, 1], [1, 0 :: real]]) < 3"
    by simp_all
  have c: "argsort_contract (np_argsort demo_lib)"
    by (simp add: demo_lib_def ascending_ties_argsort_contract)
  have run: "retrieve_with (np_argsort demo_lib) (provider_embed_query demo_lib) None
               demo_store ''q'' ''A'' 3 =
     Inr [demo_result 1 ''a1'' 1 None, demo_result 0 ''a0'' 0 None]"
    using run_simple_A by (simp add: SimpleRetriever_retrieve_def)
  from retrieve_top_k_beyond_chunks[where embed_fn = "provider_embed_query demo_lib"
      and query = "''q''", OF e m q d a k1 k2 c, of None]
  show ?thesis using e m c run by auto
qed

subsection \<open>C10: more vectors than metadata entries\<close>

text \<open>
  Claim C10: for a record with more vectors than metadata entries, \<^verbatim>\<open>retrieve\<close> raises
  nothing: it drops every selected position that has no metadata entry and returns the
  results of the remaining positions, in their order, possibly fewer than \<^verbatim>\<open>top_k\<close>.
  This holds whatever positions \<^verbatim>\<open>np.argsort\<close> returns.
\<close>

theorem retrieve_skips_positions_without_metadata:
  assumes "embeddings_pkl st doc = Some embs" "metadata_json st doc = Some md"
    "embed_fn query = Inr q" "\<forall>e\<in>set embs. length e = length q"
    "length (chunks md) < length embs"
  shows "\<exists>sims. similarities q embs = Inr sims \<and> length sims = length embs \<and>
     retrieve_with argsort_fn embed_fn tag st query doc top_k =
       Inr (map (make_result tag (chunks md) sims)
              (filter (\<lambda>idx. idx < length (chunks md))
                 (top_indices argsort_fn sims top_k)))"
  using retrieve_with_succeeds[where embed_fn = embed_fn and query = query, OF assms(1-4)]
  by simp

theorem retrieve_skips_positions_without_metadata_witness:
  "embeddings_pkl demo_store ''L'' = Some [[1, 0], [0, 1], [1, 0]] \<and>
   metadata_json demo_store ''L'' = Some (demo_md ''L'' [''l0'']) \<and>
   length (chunks (demo_md ''L'' [''l0''])) < length [[1, 0], [0, 1], [1, 0 :: real]] \<and>
   top_indices (np_argsort demo_lib) [1, 0, 1] 2 = [2, 0] \<and>
   retrieve_with (np_argsort demo_lib) (provider_embed_query demo_lib) None demo_store
     ''q'' ''L'' 2 = Inr [demo_result 0 ''l0'' 1 None]"
proof -
  have e: "embeddings_pkl demo_store ''L'' = Some [[1, 0], [0, 1], [1, 0]]"
    by (simp add: demo_store_def)
  have m: "metadata_json demo_store ''L'' = Some (demo_md ''L'' [''l0''])"
    by (simp add: demo_store_def)
  have q: "provider_embed_query demo_lib ''q'' = Inr [1, 0]"
    by (simp add: demo_lib_def)
  have d: "\<forall>e\<in>set [[1, 0], [0, 1], [1, 0 :: real]]. length e = length [1, 0 :: real]"
    by simp
  have a: "length (chunks (demo_md ''L'' [''l0''])) < length [[1, 0], [0, 1], [1, 0 :: real]]"
    by (simp add: demo_md_def length_chunk_entries)
  have t: "top_indices (np_argsort demo_lib) [1, 0, 1] 2 = [2, 0]"
    by (simp add: top_indices_def demo_lib_def ascending_ties_argsort_def slice_from_def
        upt_rec)
  have run: "retrieve_with (np_argsort demo_lib) (provider_embed_query demo_lib) None
               demo_store ''q'' ''L'' 2 = Inr [demo_result 0 ''l0'' 1 None]"
    using run_simple_L by (simp add: SimpleRetriever_retrieve_def)
  from retrieve_skips_positions_without_metadata[where embed_fn = "provider_embed_query demo_lib"
      and query = "''q''", OF e m q d a, of "np_argsort demo_lib" None 2]
  show ?thesis using e m a t run by blast
qed

subsection \<open>C3: the multi-document merge\<close>

text \<open>
  Claim C3 asks the merge to order equal similarities by ascending chunk index. The code
  sorts the concatenated local lists by score alone, with Python's stable sort, so equal
  scores stay in the order of concatenation. For documents \<open>A\<close> and \<open>B\<close> and
  \<^verbatim>\<open>top_k = 2\<close>, chunk 1 of \<open>A\<close> and chunk 0 of \<open>B\<close> both score 1, and chunk 1 comes first.
\<close>

theorem merge_tie_break_counterexample:
  "retrieve_from_multiple_docs demo_lib client_manager first_run demo_store ''q''
     [''A'', ''B''] 2 =
     [demo_result 1 ''a1'' 1 (Some ''A''), demo_result 0 ''b0'' 1 (Some ''B'')] \<and>
   \<not> ranked_with_index_tie_break
       [demo_result 1 ''a1'' 1 (Some ''A''), demo_result 0 ''b0'' 1 (Some ''B'')]"
  using run_multi_AB not_ranked_1_0 by simp

text \<open>
  Claim C3, amended: the multi-document retriever takes each document's local \<^verbatim>\<open>top_k\<close>
  list (nothing for a document that fails), concatenates the lists in the order of
  \<^verbatim>\<open>doc_ids\<close>, sorts the concatenation in descending order of similarity with a stable
  sort, so that equal similarities keep their order of concatenation, and returns the
  slice \<^verbatim>\<open>[:top_k]\<close> of it, which for \<^verbatim>\<open>top_k \<ge> 0\<close> is its first \<^verbatim>\<open>top_k\<close> entries.
\<close>

theorem retrieve_from_multiple_docs_merge:
  "let single = (\<lambda>d. retrieve_from_single_doc L m p st query d top_k);
       locals = concat (map (local_results single) doc_ids);
       ranked = sort_by_score_reverse locals
   in retrieve_from_multiple_docs L m p st query doc_ids top_k = slice_to top_k ranked \<and>
      mset ranked = mset locals \<and>
      sorted_wrt (\<lambda>a b. score b \<le> score a) ranked \<and>
      (\<forall>s. filter (\<lambda>r. score r = s) ranked = filter (\<lambda>r. score r = s) locals) \<and>
      (0 \<le> top_k \<longrightarrow> slice_to top_k ranked = take (nat top_k) ranked)"
  by (simp add: Let_def retrieve_from_multiple_docs_def gather_results_concat
      mset_sort_by_score_reverse sorted_sort_by_score_reverse stable_sort_by_score_reverse
      slice_to_nonneg)

theorem retrieve_from_multiple_docs_merge_witness:
  "(0::int) \<le> 2 \<and>
   retrieve_from_multiple_docs demo_lib client_manager first_run demo_store ''q''
     [''A'', ''B''] 2 =
   take (nat 2)
     (sort_by_score_reverse
        (concat (map (local_results
           (\<lambda>d. retrieve_from_single_doc demo_lib client_manager first_run demo_store ''q'' d 2))
           [''A'', ''B''])))"
  using retrieve_from_multiple_docs_merge[of demo_lib client_manager first_run demo_store
      "''q''" 2 "[''A'', ''B'']"]
  by (simp add: Let_def)

subsection \<open>C4: a failing document in the merge\<close>

text \<open>
  Claim C4: when retrieval from one document id fails, \<^verbatim>\<open>retrieve_from_multiple_docs\<close>
  does not raise; the document is skipped and the result is the merge over the remaining
  ids. The function returns a list on every input, and a failing id can be struck from
  \<^verbatim>\<open>doc_ids\<close> without changing the result.
\<close>

theorem retrieve_from_multiple_docs_skips_failure:
  assumes "retrieve_from_single_doc L m p st query d top_k = Inl e"
  shows "retrieve_from_multiple_docs L m p st query doc_ids top_k =
         retrieve_from_multiple_docs L m p st query (removeAll d doc_ids) top_k"
proof -
  let ?single = "\<lambda>d. retrieve_from_single_doc L m p st query d top_k"
  have "concat (map (local_results ?single) doc_ids) =
        concat (map (local_results ?single) (removeAll d doc_ids))"
    using assms by (induction doc_ids) (auto simp: local_results_def)
  then show ?thesis
    by (simp add: retrieve_from_multiple_docs_def gather_results_concat)
qed

theorem retrieve_from_multiple_docs_skips_failure_witness:
  "retrieve_from_single_doc demo_lib client_manager first_run demo_store ''q'' ''missing'' 2 =
     Inl (NoEmbeddingsFound ''missing'') \<and>
   retrieve_from_multiple_docs demo_lib client_manager first_run demo_store ''q''
     [''A'', ''missing'', ''B''] 2 =
   retrieve_from_multiple_docs demo_lib client_manager first_run demo_store ''q''
     [''A'', ''B''] 2 \<and>
   retrieve_from_multiple_docs demo_lib client_manager first_run demo_store ''q''
     [''A'', ''missing'', ''B''] 2 =
     [demo_result 1 ''a1'' 1 (Some ''A''), demo_result 0 ''b0'' 1 (Some ''B'')]"
  using run_single_missing run_multi_AB
    retrieve_from_multiple_docs_skips_failure[OF run_single_missing,
      of "[''A'', ''missing'', ''B'']"]
  by simp

subsection \<open>C6: a chunk size that is not positive\<close>

text \<open>
  Claim C6: for every configuration with \<^verbatim>\<open>max_tokens \<le> 0\<close>, constructing the chunker
  reports a configuration error to the caller before any chunking is performed, and no
  chunk list is produced. \<^verbatim>\<open>TextChunker.__init__\<close> has no check of its own; it hands the
  sizes to the splitter's constructor, whose error is the chunker's. With that
  constructor as the specification describes it, the construction fails for every
  overlap, and constructing and then chunking yields the error for every document and
  every splitting function, never a chunk list.
\<close>

theorem chunker_rejects_nonpositive_size:
  assumes "csize \<le> 0"
  shows "TextChunker_init RecursiveCharacterTextSplitter_init csize coverlap =
           Inl (SplitterValueError ''chunk_size must be > 0'') \<and>
         chunk_with_settings split_documents csize coverlap document =
           Inl (SplitterValueError ''chunk_size must be > 0'') \<and>
         (\<forall>chunk_list.
            chunk_with_settings split_documents csize coverlap document \<noteq> Inr chunk_list)"
proof -
  have ctor: "RecursiveCharacterTextSplitter_init csize coverlap =
                Inl (SplitterValueError ''chunk_size must be > 0'')"
    using assms by (simp add: RecursiveCharacterTextSplitter_init_def)
  then have init: "TextChunker_init RecursiveCharacterTextSplitter_init csize coverlap =
                     Inl (SplitterValueError ''chunk_size must be > 0'')"
    by (simp add: TextChunker_init_def)
  then have run: "chunk_with_settings split_documents csize coverlap document =
                    Inl (SplitterValueError ''chunk_size must be > 0'')"
    by (simp add: chunk_with_settings_def)
  show ?thesis using init run by simp
qed

theorem chunker_rejects_nonpositive_size_witness:
  "(0::int) \<le> 0 \<and>
   TextChunker_init RecursiveCharacterTextSplitter_init 0 200 =
     Inl (SplitterValueError ''chunk_size must be > 0'') \<and>
   chunk_with_settings (\<lambda>sp pages. pages) 0 200 two_chunks =
     Inl (SplitterValueError ''chunk_size must be > 0'') \<and>
   TextChunker_init RecursiveCharacterTextSplitter_init 1000 200 =
     Inr \<lparr>chunk_size = 1000, chunk_overlap = 200,
          text_splitter = \<lparr>splitter_chunk_size = 1000, splitter_chunk_overlap = 200\<rparr>\<rparr>"
proof -
  have z: "(0::int) \<le> 0" by simp
  have ok: "TextChunker_init RecursiveCharacterTextSplitter_init 1000 200 =
     Inr \<lparr>chunk_size = 1000, chunk_overlap = 200,
          text_splitter = \<lparr>splitter_chunk_size = 1000, splitter_chunk_overlap = 200\<rparr>\<rparr>"
    by (simp add: TextChunker_init_def RecursiveCharacterTextSplitter_init_def)
  from chunker_rejects_nonpositive_size[OF z, of 200 "\<lambda>sp pages. pages" two_chunks]
  show ?thesis using z ok by simp
qed

end
